theory Spec2Isabelle
  imports Main "HOL-Library.Sublist"
begin

section \<open>Faceted gall search (src/pages/search2.tsx)\<close>

subsection \<open>Data model\<close>

text \<open>
  Strings are JavaScript strings; a \<open>char\<close> stands for one UTF-16 code unit, so that
  \<open>v[0]\<close> on a string is its first element and \<open>===\<close> on two strings is list equality.

  A facet value of the query has the TypeScript type \<open>string | string[] | undefined\<close>;
  \<open>undefined\<close> is \<open>None\<close> of \<open>qval option\<close>.
\<close>

datatype qval = QStr string | QArr "string list"

text \<open>
  \<open>SearchQuery\<close> is a plain object indexed by facet name (\<open>updateQuery\<close> writes
  \<open>qq[f]\<close> for a string \<open>f\<close>); a missing property reads as \<open>undefined\<close>.
\<close>

type_synonym SearchQuery = "string \<rightharpoonup> qval"

text \<open>
  The rows of the lookup tables (\<open>alignment\<close>, \<open>cells\<close>, \<open>color\<close>, \<open>shape\<close>, \<open>walls\<close>,
  \<open>location\<close>, \<open>texture\<close> of the database client). Only the one field that \<open>checkGall\<close>
  reads is kept; it is \<open>string | null\<close>, with \<open>None\<close> for \<open>null\<close>. The selector
  \<open>t_f\<close> is field \<open>f\<close> of table \<open>t\<close>.
\<close>

record alignment_row = alignment_alignment :: "string option"
record cells_row = cells_cells :: "string option"
record color_row = color_color :: "string option"
record shape_row = shape_shape :: "string option"
record walls_row = walls_walls :: "string option"
record location_row = location_location :: "string option"
record texture_row = texture_texture :: "string option"

record GallLocation = GallLocation_location :: "location_row option"
record GallTexture = GallTexture_texture :: "texture_row option"

text \<open>
  \<open>Gall\<close>: the fields that the search page reads. A nullable field is an \<open>option\<close>;
  \<open>detachable\<close> is \<open>number | null\<close> (an integer column).
\<close>

record Gall =
  gall_id :: int
  species_id :: int
  alignment :: "alignment_row option"
  cells :: "cells_row option"
  color :: "color_row option"
  detachable :: "int option"
  shape :: "shape_row option"
  walls :: "walls_row option"
  galllocation :: "GallLocation list option"
  galltexture :: "GallTexture list option"

subsection \<open>JavaScript operators used by the predicates\<close>

text \<open>
  \<open>a === b\<close> for \<open>a : string | null\<close> and \<open>b : string | string[] | undefined\<close>: true
  only for two strings with the same content; \<open>null\<close> is strictly equal to neither a
  string, an array nor \<open>undefined\<close>, and a string is never strictly equal to an array.
\<close>

fun strictEq :: "string option \<Rightarrow> qval option \<Rightarrow> bool" where
  "strictEq (Some s) (Some (QStr t)) = (s = t)"
| "strictEq _ _ = False"

text \<open>
  \<open>queryvals.includes(t)\<close>: membership for an array; for a string (which
  \<open>updateQuery\<close> can store under \<open>locations\<close> and \<open>textures\<close>) it is
  \<open>String.prototype.includes\<close>, the test for a contiguous substring.
\<close>

fun includes_js :: "qval \<Rightarrow> string \<Rightarrow> bool" where
  "includes_js (QArr xs) t = (t \<in> set xs)"
| "includes_js (QStr s) t = sublist t s"

subsection \<open>The facet predicates\<close>

text \<open>
  \<open>dontCare\<close> (lines 16-19). \<open>!!o\<close> is false for \<open>undefined\<close> and for the empty
  string and true for every array, the empty one included.
\<close>

fun truthy_qval :: "qval option \<Rightarrow> bool" where
  "truthy_qval None = False"
| "truthy_qval (Some (QStr s)) = (s \<noteq> [])"
| "truthy_qval (Some (QArr xs)) = True"

fun isArray :: "qval option \<Rightarrow> bool" where
  "isArray (Some (QArr xs)) = True"
| "isArray _ = False"

fun qlength :: "qval option \<Rightarrow> nat" where
  "qlength (Some (QArr xs)) = length xs"
| "qlength (Some (QStr s)) = length s"
| "qlength None = 0"

definition dontCare :: "qval option \<Rightarrow> bool" where
  "dontCare o' =
     (let truthy = truthy_qval o'
      in \<not> truthy \<or> (if truthy \<and> isArray o' then qlength o' = 0 else False))"

text \<open>
  \<open>checkLocations\<close> (lines 21-25) and \<open>checkTextures\<close> (lines 27-31). The callback of
  \<open>some\<close> is \<open>tag && queryvals.includes(tag)\<close>: a tag that is \<open>null\<close> or the empty
  string is falsy and the element does not count.
\<close>

definition checkLocations :: "GallLocation list option \<Rightarrow> qval option \<Rightarrow> bool" where
  "checkLocations gallprops queryvals =
     (case gallprops of
        None \<Rightarrow> False
      | Some gps \<Rightarrow>
          (case queryvals of
             None \<Rightarrow> False
           | Some qv \<Rightarrow>
               list_ex (\<lambda>gp. case GallLocation_location gp of
                                None \<Rightarrow> False
                              | Some l \<Rightarrow>
                                  (case location_location l of
                                     None \<Rightarrow> False
                                   | Some t \<Rightarrow> t \<noteq> [] \<and> includes_js qv t)) gps))"

definition checkTextures :: "GallTexture list option \<Rightarrow> qval option \<Rightarrow> bool" where
  "checkTextures gallprops queryvals =
     (case gallprops of
        None \<Rightarrow> False
      | Some gps \<Rightarrow>
          (case queryvals of
             None \<Rightarrow> False
           | Some qv \<Rightarrow>
               list_ex (\<lambda>gp. case GallTexture_texture gp of
                                None \<Rightarrow> False
                              | Some l \<Rightarrow>
                                  (case texture_texture l of
                                     None \<Rightarrow> False
                                   | Some t \<Rightarrow> t \<noteq> [] \<and> includes_js qv t)) gps))"

text \<open>
  The eight local constants of \<open>checkGall\<close> (lines 34-41), one definition each, named
  \<open>facet_\<close> and the constant's name. \<open>!!g.alignment\<close> is true for a row and false for
  \<open>null\<close>; \<open>!!g.detachable\<close> is false for \<open>null\<close> and for \<open>0\<close>.
\<close>

definition facet_alignment :: "Gall \<Rightarrow> SearchQuery \<Rightarrow> bool" where
  "facet_alignment g q =
     (dontCare (q ''alignment'') \<or>
      (case alignment g of None \<Rightarrow> False
       | Some a \<Rightarrow> strictEq (alignment_alignment a) (q ''alignment'')))"

definition facet_cells :: "Gall \<Rightarrow> SearchQuery \<Rightarrow> bool" where
  "facet_cells g q =
     (dontCare (q ''cells'') \<or>
      (case cells g of None \<Rightarrow> False
       | Some a \<Rightarrow> strictEq (cells_cells a) (q ''cells'')))"

definition facet_color :: "Gall \<Rightarrow> SearchQuery \<Rightarrow> bool" where
  "facet_color g q =
     (dontCare (q ''color'') \<or>
      (case color g of None \<Rightarrow> False
       | Some a \<Rightarrow> strictEq (color_color a) (q ''color'')))"

definition facet_detachable :: "Gall \<Rightarrow> SearchQuery \<Rightarrow> bool" where
  "facet_detachable g q =
     (dontCare (q ''detachable'') \<or>
      (case detachable g of None \<Rightarrow> False
       | Some d \<Rightarrow> d \<noteq> 0 \<and>
           strictEq (Some (if d = 0 then ''no'' else ''yes'')) (q ''detachable'')))"

definition facet_shape :: "Gall \<Rightarrow> SearchQuery \<Rightarrow> bool" where
  "facet_shape g q =
     (dontCare (q ''shape'') \<or>
      (case shape g of None \<Rightarrow> False
       | Some a \<Rightarrow> strictEq (shape_shape a) (q ''shape'')))"

definition facet_walls :: "Gall \<Rightarrow> SearchQuery \<Rightarrow> bool" where
  "facet_walls g q =
     (dontCare (q ''walls'') \<or>
      (case walls g of None \<Rightarrow> False
       | Some a \<Rightarrow> strictEq (walls_walls a) (q ''walls'')))"

definition facet_location :: "Gall \<Rightarrow> SearchQuery \<Rightarrow> bool" where
  "facet_location g q =
     (dontCare (q ''locations'') \<or>
      (case galllocation g of None \<Rightarrow> False
       | Some gps \<Rightarrow> checkLocations (galllocation g) (q ''locations'')))"

definition facet_texture :: "Gall \<Rightarrow> SearchQuery \<Rightarrow> bool" where
  "facet_texture g q =
     (dontCare (q ''textures'') \<or>
      (case galltexture g of None \<Rightarrow> False
       | Some gps \<Rightarrow> checkTextures (galltexture g) (q ''textures'')))"

definition checkGall :: "Gall \<Rightarrow> SearchQuery \<Rightarrow> bool" where
  "checkGall g q =
     (facet_alignment g q \<and> facet_cells g q \<and> facet_color g q \<and> facet_detachable g q \<and>
      facet_shape g q \<and> facet_walls g q \<and> facet_location g q \<and> facet_texture g q)"

subsection \<open>The page state and its two handlers\<close>

text \<open>
  The component keeps \<open>galls\<close> and \<open>query\<close> in two state cells. The facet form
  (\<open>useForm\<close>, with \<open>filterControl\<close> and \<open>filterReset\<close>) holds the values shown in the
  facet inputs in a store of its own, \<open>filterValues\<close>; the input component writes it and
  \<open>filterReset()\<close> empties it.
\<close>

record page_state =
  galls :: "Gall list"
  query :: SearchQuery
  filterValues :: "string \<rightharpoonup> qval"

text \<open>
  \<open>v[0]\<close>: the first element of an array, the first code unit of a string (as a
  string of length one), and \<open>undefined\<close> when \<open>v\<close> is empty.
\<close>

fun index0 :: "qval \<Rightarrow> qval option" where
  "index0 (QArr []) = None"
| "index0 (QArr (x # xs)) = Some (QStr x)"
| "index0 (QStr []) = None"
| "index0 (QStr (c # cs)) = Some (QStr [c])"

text \<open>
  \<open>updateQuery\<close> (lines 115-120); the current \<open>query\<close> is its first argument.
  The condition of the conditional expression is the whole conjunction
  \<open>f !== 'locations' && f !== 'textures' && v.length > 0\<close>.
\<close>

definition updateQuery :: "SearchQuery \<Rightarrow> string \<Rightarrow> qval \<Rightarrow> SearchQuery" where
  "updateQuery query' f v =
     (let qq = query';
          value' = (if f \<noteq> ''locations'' \<and> f \<noteq> ''textures'' \<and> qlength (Some v) > 0
                    then index0 v else Some v)
      in qq(f := value'))"

text \<open>\<open>doSearch\<close> (lines 144-149).\<close>

definition doSearch :: "page_state \<Rightarrow> string \<Rightarrow> qval \<Rightarrow> page_state" where
  "doSearch st field' value' =
     (let newq = updateQuery (query st) field' value';
          filtered = filter (\<lambda>g. checkGall g newq) (galls st)
      in st\<lparr>galls := filtered, query := newq\<rparr>)"

text \<open>
  \<open>onSubmit\<close> (lines 123-141). The form fields \<open>host\<close> and \<open>genus\<close> are strings or
  absent. What \<open>fetch\<close> does is a parameter, a function from the URL to the outcome:
  the promise rejects (\<open>Rejected\<close>), or there is a response with a status and a body;
  \<open>res.json()\<close> gives the records (\<open>Some\<close>) or rejects (\<open>None\<close>). Every throw ends in
  the \<open>catch\<close>, which only logs.
\<close>

record SearchFormFields =
  host :: "string option"
  genus :: "string option"

datatype fetch_result = Rejected | Response int "Gall list option"

definition filterReset :: "page_state \<Rightarrow> page_state" where
  "filterReset st = st\<lparr>filterValues := Map.empty\<rparr>"

definition template :: "string option \<Rightarrow> string" where
  "template s = (case s of None \<Rightarrow> ''undefined'' | Some t \<Rightarrow> t)"

definition rootUrl :: "SearchFormFields \<Rightarrow> string" where
  "rootUrl sel =
     (let query' = (if host sel \<noteq> None \<and> host sel \<noteq> Some []
                    then ''?host='' @ template (host sel)
                    else ''?genus='' @ template (genus sel))
      in ''../api/search'' @ query')"

definition onSubmit :: "(string \<Rightarrow> fetch_result) \<Rightarrow> page_state \<Rightarrow> SearchFormFields \<Rightarrow> page_state" where
  "onSubmit fetch st sel =
     (let st1 = filterReset st
      in case fetch (rootUrl sel) of
           Rejected \<Rightarrow> st1
         | Response status body \<Rightarrow>
             if status = 200
             then (case body of Some gs \<Rightarrow> st1\<lparr>galls := gs\<rparr> | None \<Rightarrow> st1)
             else st1)"

subsection \<open>Sequences of interactions\<close>

text \<open>A sequence of facet edits: \<open>doSearch\<close> once for each (field, value), in order.\<close>

fun doSearches :: "page_state \<Rightarrow> (string \<times> qval) list \<Rightarrow> page_state" where
  "doSearches st [] = st"
| "doSearches st ((f, v) # es) = doSearches (doSearch st f v) es"

text \<open>
  An interaction is a facet edit or a root submission together with the outcome of its
  fetch. \<open>superset_after s es\<close> is the body of the last successful fetch among \<open>es\<close>,
  and \<open>s\<close> when there is none.
\<close>

datatype event = EditFacet string qval | SubmitRoot SearchFormFields fetch_result

fun step :: "page_state \<Rightarrow> event \<Rightarrow> page_state" where
  "step st (EditFacet f v) = doSearch st f v"
| "step st (SubmitRoot sel r) = onSubmit (\<lambda>url. r) st sel"

fun run :: "page_state \<Rightarrow> event list \<Rightarrow> page_state" where
  "run st [] = st"
| "run st (e # es) = run (step st e) es"

fun fetched :: "fetch_result \<Rightarrow> Gall list option" where
  "fetched (Response status (Some gs)) = (if status = 200 then Some gs else None)"
| "fetched _ = None"

fun superset_after :: "Gall list \<Rightarrow> event list \<Rightarrow> Gall list" where
  "superset_after s [] = s"
| "superset_after s (EditFacet f v # es) = superset_after s es"
| "superset_after s (SubmitRoot sel r # es) =
     superset_after (case fetched r of Some gs \<Rightarrow> gs | None \<Rightarrow> s) es"

subsection \<open>The tags of a record\<close>

text \<open>
  The location and texture tags of a record, in order: the values
  \<open>gp.location.location\<close> (\<open>gp.texture.texture\<close>) of the elements of
  \<open>g.galllocation\<close> (\<open>g.galltexture\<close>) that are not \<open>null\<close>.
\<close>

definition locationTags :: "Gall \<Rightarrow> string list" where
  "locationTags g =
     (case galllocation g of
        None \<Rightarrow> []
      | Some gps \<Rightarrow>
          List.map_filter (\<lambda>gp. Option.bind (GallLocation_location gp) location_location) gps)"

definition textureTags :: "Gall \<Rightarrow> string list" where
  "textureTags g =
     (case galltexture g of
        None \<Rightarrow> []
      | Some gps \<Rightarrow>
          List.map_filter (\<lambda>gp. Option.bind (GallTexture_texture gp) texture_texture) gps)"

subsection \<open>Example records\<close>

text \<open>
  A record with every nullable field \<open>null\<close>, and the three records of the scenario
  of section 8 of the specification.
\<close>

definition blankGall :: Gall where
  "blankGall = \<lparr>gall_id = 0, species_id = 0, alignment = None, cells = None, color = None,
     detachable = None, shape = None, walls = None, galllocation = None, galltexture = None\<rparr>"

definition mkLocation :: "string \<Rightarrow> GallLocation" where
  "mkLocation t = \<lparr>GallLocation_location = Some \<lparr>location_location = Some t\<rparr>\<rparr>"

definition mkTexture :: "string \<Rightarrow> GallTexture" where
  "mkTexture t = \<lparr>GallTexture_texture = Some \<lparr>texture_texture = Some t\<rparr>\<rparr>"

definition mkColor :: "string \<Rightarrow> color_row option" where
  "mkColor t = Some \<lparr>color_color = Some t\<rparr>"

definition gall1 :: Gall where
  "gall1 = blankGall\<lparr>gall_id := 1, species_id := 1, color := mkColor ''green'',
     galllocation := Some [mkLocation ''stem'']\<rparr>"

definition gall2 :: Gall where
  "gall2 = blankGall\<lparr>gall_id := 2, species_id := 2, color := mkColor ''brown'',
     galllocation := Some [mkLocation ''leaf'']\<rparr>"

definition gall3 :: Gall where
  "gall3 = blankGall\<lparr>gall_id := 3, species_id := 3, color := mkColor ''green'',
     galllocation := Some [mkLocation ''leaf'']\<rparr>"

definition loaded :: "Gall list \<Rightarrow> page_state" where
  "loaded gs = \<lparr>galls = gs, query = Map.empty, filterValues = Map.empty\<rparr>"

text \<open>
  A record whose only location tag is the empty string, and the record with the location
  tags stem and leaf of section 8 of the specification.
\<close>

definition emptyTagGall :: Gall where
  "emptyTagGall = blankGall\<lparr>galllocation := Some [mkLocation '''']\<rparr>"

definition stemLeafGall :: Gall where
  "stemLeafGall = blankGall\<lparr>galllocation := Some [mkLocation ''stem'', mkLocation ''leaf'']\<rparr>"

text \<open>
  A page that shows record 1 after the colour facet was set to green, and a root
  selection by host.
\<close>

definition greenState :: page_state where
  "greenState = \<lparr>galls = [gall1], query = [''color'' \<mapsto> QStr ''green''],
     filterValues = [''color'' \<mapsto> QArr [''green'']]\<rparr>"

definition hostQuercus :: SearchFormFields where
  "hostQuercus = \<lparr>host = Some ''Quercus'', genus = None\<rparr>"

section \<open>Properties\<close>

subsection \<open>Auxiliary facts\<close>

lemmas facet_defs = facet_alignment_def facet_cells_def facet_color_def facet_detachable_def
  facet_shape_def facet_walls_def facet_location_def facet_texture_def

lemmas example_defs = blankGall_def mkLocation_def mkTexture_def mkColor_def
  gall1_def gall2_def gall3_def loaded_def

lemma dontCare_iff: "dontCare v \<longleftrightarrow> v = None \<or> v = Some (QStr []) \<or> v = Some (QArr [])"
  by (cases v rule: truthy_qval.cases) (auto simp: dontCare_def)

lemma galls_doSearch:
  "galls (doSearch st f v) = filter (\<lambda>g. checkGall g (updateQuery (query st) f v)) (galls st)"
  by (simp add: doSearch_def Let_def)

lemma subseq_doSearch: "subseq (galls (doSearch st f v)) (galls st)"
  by (simp add: galls_doSearch)

lemma subseq_doSearches: "subseq (galls (doSearches st es)) (galls st)"
proof (induction es arbitrary: st)
  case Nil
  show ?case by simp
next
  case (Cons e es)
  obtain f v where e: "e = (f, v)" by (cases e)
  have "subseq (galls (doSearches (doSearch st f v) es)) (galls (doSearch st f v))"
    by (rule Cons.IH)
  then show ?case using subseq_doSearch[of st f v] e
    by (auto intro: subseq_order.trans)
qed

lemma subseq_set_mono: "subseq xs ys \<Longrightarrow> set xs \<subseteq> set ys"
  by (auto elim: list_emb_set)

lemma set_doSearch: "set (galls (doSearch st f v)) \<subseteq> set (galls st)"
  by (rule subseq_set_mono) (rule subseq_doSearch)

lemma set_doSearches: "set (galls (doSearches st es)) \<subseteq> set (galls st)"
  by (rule subseq_set_mono) (rule subseq_doSearches)

lemma galls_onSubmit:
  "galls (onSubmit fetch st sel) =
     (case fetched (fetch (rootUrl sel)) of Some gs \<Rightarrow> gs | None \<Rightarrow> galls st)"
  by (cases "fetch (rootUrl sel)" rule: fetched.cases)
     (simp_all add: onSubmit_def filterReset_def Let_def)

lemma query_onSubmit: "query (onSubmit fetch st sel) = query st"
  by (cases "fetch (rootUrl sel)" rule: fetched.cases)
     (simp_all add: onSubmit_def filterReset_def Let_def)

lemma subseq_run: "subseq (galls st) s \<Longrightarrow> subseq (galls (run st es)) (superset_after s es)"
proof (induction es arbitrary: st s)
  case Nil
  then show ?case by simp
next
  case (Cons e es)
  show ?case
  proof (cases e)
    case (EditFacet f v)
    have "subseq (galls (doSearch st f v)) s"
      using subseq_doSearch[of st f v] Cons.prems by (rule subseq_order.trans)
    then show ?thesis using Cons.IH EditFacet by simp
  next
    case (SubmitRoot sel r)
    have "subseq (galls (onSubmit (\<lambda>url. r) st sel))
            (case fetched r of Some gs \<Rightarrow> gs | None \<Rightarrow> s)"
      using Cons.prems by (simp add: galls_onSubmit split: option.split)
    then show ?thesis using Cons.IH SubmitRoot by simp
  qed
qed

lemma superset_after_edits: "superset_after s (map (\<lambda>(f, v). EditFacet f v) es) = s"
  by (induction es) auto

lemma run_edits: "run st (map (\<lambda>(f, v). EditFacet f v) es) = doSearches st es"
  by (induction es arbitrary: st) auto

subsection \<open>Narrowing by facet edits\<close>

text \<open>
  Claim C1. A facet edit filters the current \<open>galls\<close> with the updated query, so the
  displayed records after an edit, and after any sequence of edits, are among those
  displayed before. In particular, after an edit A and an edit B, setting A's facet back
  to the empty selection gives a set inside the one left by B, and whatever further edits
  follow, the displayed records stay among those that passed A.
\<close>

theorem doSearch_monotonic_narrowing:
  "galls (doSearch st f v) = filter (\<lambda>g. checkGall g (updateQuery (query st) f v)) (galls st)
   \<and> set (galls (doSearch st f v)) \<subseteq> set (galls st)
   \<and> set (galls (doSearches st es)) \<subseteq> set (galls st)
   \<and> set (galls (doSearch (doSearch (doSearch st fA vA) fB vB) fA (QArr [])))
        \<subseteq> set (galls (doSearch (doSearch st fA vA) fB vB))
   \<and> set (galls (doSearches (doSearch (doSearch st fA vA) fB vB) ((fA, QArr []) # es)))
        \<subseteq> set (galls (doSearch st fA vA))"
proof -
  let ?s1 = "doSearch st fA vA"
  let ?s2 = "doSearch ?s1 fB vB"
  have "set (galls (doSearches ?s2 ((fA, QArr []) # es))) \<subseteq> set (galls ?s2)"
    by (rule set_doSearches)
  also have "\<dots> \<subseteq> set (galls ?s1)"
    by (rule set_doSearch)
  finally have last: "set (galls (doSearches ?s2 ((fA, QArr []) # es))) \<subseteq> set (galls ?s1)" .
  show ?thesis
    using last set_doSearch[of st f v] set_doSearches[of st es] set_doSearch[of ?s2 fA "QArr []"]
    by (simp only: galls_doSearch[of st f v] simp_thms)
qed

text \<open>
  The scenario of section 8 of the specification: colour green leaves records 1 and 3,
  location leaf leaves record 3, and clearing the colour still leaves record 3 only.
\<close>

theorem doSearch_monotonic_narrowing_witness:
  "galls (doSearch (loaded [gall1, gall2, gall3]) ''color'' (QArr [''green''])) = [gall1, gall3]
   \<and> galls (doSearch (doSearch (loaded [gall1, gall2, gall3]) ''color'' (QArr [''green'']))
        ''locations'' (QArr [''leaf''])) = [gall3]
   \<and> galls (doSearch (doSearch (doSearch (loaded [gall1, gall2, gall3]) ''color'' (QArr [''green'']))
        ''locations'' (QArr [''leaf''])) ''color'' (QArr [])) = [gall3]
   \<and> set (galls (doSearch (doSearch (doSearch (loaded [gall1, gall2, gall3]) ''color'' (QArr [''green'']))
        ''locations'' (QArr [''leaf''])) ''color'' (QArr [])))
      \<subseteq> set (galls (doSearch (doSearch (loaded [gall1, gall2, gall3]) ''color'' (QArr [''green'']))
        ''locations'' (QArr [''leaf''])))"
  using doSearch_monotonic_narrowing [of "loaded [gall1, gall2, gall3]" "''color''" "QArr [''green'']"
      "[]" "''color''" "QArr [''green'']" "''locations''" "QArr [''leaf'']"]
  by (simp add: doSearch_def updateQuery_def checkGall_def facet_defs dontCare_def
      checkLocations_def example_defs)

subsection \<open>Don't-care facets\<close>

text \<open>
  Claim C5. A facet value is don't-care exactly when it is absent, the empty string or
  the empty sequence. A don't-care value for a facet makes that facet's test true for
  every record, and a query whose eight facet values are all don't-care (the empty query
  among them) matches every record.
\<close>

theorem dontCare_matches_every_record:
  "(dontCare v \<longleftrightarrow> v = None \<or> v = Some (QStr '''') \<or> v = Some (QArr []))
   \<and> (dontCare (q ''alignment'') \<longrightarrow> facet_alignment g q)
   \<and> (dontCare (q ''cells'') \<longrightarrow> facet_cells g q)
   \<and> (dontCare (q ''color'') \<longrightarrow> facet_color g q)
   \<and> (dontCare (q ''detachable'') \<longrightarrow> facet_detachable g q)
   \<and> (dontCare (q ''shape'') \<longrightarrow> facet_shape g q)
   \<and> (dontCare (q ''walls'') \<longrightarrow> facet_walls g q)
   \<and> (dontCare (q ''locations'') \<longrightarrow> facet_location g q)
   \<and> (dontCare (q ''textures'') \<longrightarrow> facet_texture g q)
   \<and> (dontCare (q ''alignment'') \<and> dontCare (q ''cells'') \<and> dontCare (q ''color'')
        \<and> dontCare (q ''detachable'') \<and> dontCare (q ''shape'') \<and> dontCare (q ''walls'')
        \<and> dontCare (q ''locations'') \<and> dontCare (q ''textures'') \<longrightarrow> checkGall g q)
   \<and> checkGall g Map.empty"
  by (simp add: checkGall_def facet_defs dontCare_iff)

theorem dontCare_matches_every_record_witness:
  "dontCare ([''color'' \<mapsto> QStr '''', ''locations'' \<mapsto> QArr []] ''color'')
   \<and> dontCare ([''color'' \<mapsto> QStr '''', ''locations'' \<mapsto> QArr []] ''locations'')
   \<and> dontCare ([''color'' \<mapsto> QStr '''', ''locations'' \<mapsto> QArr []] ''shape'')
   \<and> facet_color gall1 [''color'' \<mapsto> QStr '''', ''locations'' \<mapsto> QArr []]
   \<and> checkGall gall1 [''color'' \<mapsto> QStr '''', ''locations'' \<mapsto> QArr []]
   \<and> checkGall gall2 Map.empty"
  using dontCare_matches_every_record
      [of "Some (QStr '''')" "[''color'' \<mapsto> QStr '''', ''locations'' \<mapsto> QArr []]" gall1]
    dontCare_matches_every_record [of None Map.empty gall2]
  by (simp add: dontCare_def)

subsection \<open>Single-valued facets\<close>

text \<open>
  Claim C7. When the query constrains a single-valued facet (its value is not
  don't-care) and the record has no value for it, because the row is \<open>null\<close> or the
  row's field is \<open>null\<close> (for detachable: the code is \<open>null\<close>), the facet test is
  false and the record does not match the query, whatever the query value is.
\<close>

theorem null_value_never_matches:
  "(\<not> dontCare (q ''alignment'') \<and> Option.bind (alignment g) alignment_alignment = None
      \<longrightarrow> \<not> facet_alignment g q \<and> \<not> checkGall g q)
   \<and> (\<not> dontCare (q ''cells'') \<and> Option.bind (cells g) cells_cells = None
      \<longrightarrow> \<not> facet_cells g q \<and> \<not> checkGall g q)
   \<and> (\<not> dontCare (q ''color'') \<and> Option.bind (color g) color_color = None
      \<longrightarrow> \<not> facet_color g q \<and> \<not> checkGall g q)
   \<and> (\<not> dontCare (q ''detachable'') \<and> detachable g = None
      \<longrightarrow> \<not> facet_detachable g q \<and> \<not> checkGall g q)
   \<and> (\<not> dontCare (q ''shape'') \<and> Option.bind (shape g) shape_shape = None
      \<longrightarrow> \<not> facet_shape g q \<and> \<not> checkGall g q)
   \<and> (\<not> dontCare (q ''walls'') \<and> Option.bind (walls g) walls_walls = None
      \<longrightarrow> \<not> facet_walls g q \<and> \<not> checkGall g q)"
  by (auto simp: checkGall_def facet_defs split: option.splits)

theorem null_value_never_matches_witness:
  "\<not> dontCare ([''color'' \<mapsto> QStr ''green''] ''color'')
   \<and> Option.bind (color blankGall) color_color = None
   \<and> \<not> facet_color blankGall [''color'' \<mapsto> QStr ''green'']
   \<and> \<not> checkGall blankGall [''color'' \<mapsto> QStr ''green'']
   \<and> Option.bind (color (blankGall\<lparr>color := Some \<lparr>color_color = None\<rparr>\<rparr>)) color_color = None
   \<and> \<not> checkGall (blankGall\<lparr>color := Some \<lparr>color_color = None\<rparr>\<rparr>)
         [''color'' \<mapsto> QStr ''green'']"
  using null_value_never_matches [of "[''color'' \<mapsto> QStr ''green'']" blankGall]
    null_value_never_matches [of "[''color'' \<mapsto> QStr ''green'']"
      "blankGall\<lparr>color := Some \<lparr>color_color = None\<rparr>\<rparr>"]
  by (simp add: dontCare_def blankGall_def)

subsection \<open>The detachable facet\<close>

text \<open>
  Claim C9. For a constrained detachable facet the test is true exactly when the
  record's code is neither \<open>null\<close> nor 0 and the query value is the string yes. So a
  record with code 0 satisfies no constrained detachable query, the query values no and
  unsure are satisfied by no record, and selecting either of them leaves an empty list of
  displayed records.
\<close>

theorem detachable_matches_only_yes:
  "(\<not> dontCare (q ''detachable'') \<longrightarrow>
      (facet_detachable g q \<longleftrightarrow>
         (\<exists>d. detachable g = Some d \<and> d \<noteq> 0) \<and> q ''detachable'' = Some (QStr ''yes'')))
   \<and> (\<not> dontCare (q ''detachable'') \<and> detachable g = Some 0 \<longrightarrow>
         \<not> facet_detachable g q \<and> \<not> checkGall g q)
   \<and> (q ''detachable'' = Some (QStr ''no'') \<or> q ''detachable'' = Some (QStr ''unsure'') \<longrightarrow>
         \<not> facet_detachable g q \<and> \<not> checkGall g q)
   \<and> galls (doSearch st ''detachable'' (QArr [''no''])) = []
   \<and> galls (doSearch st ''detachable'' (QArr [''unsure''])) = []"
proof -
  have a: "\<not> dontCare (q ''detachable'') \<longrightarrow>
      (facet_detachable g q \<longleftrightarrow>
         (\<exists>d. detachable g = Some d \<and> d \<noteq> 0) \<and> q ''detachable'' = Some (QStr ''yes''))"
    by (cases "q ''detachable''" rule: truthy_qval.cases)
       (auto simp: facet_detachable_def split: option.splits)
  have b: "\<not> facet_detachable g' q'"
    if "q' ''detachable'' = Some (QStr ''no'') \<or> q' ''detachable'' = Some (QStr ''unsure'')"
    for g' q'
    using that by (auto simp: facet_detachable_def dontCare_def split: option.splits)
  have c: "galls (doSearch st ''detachable'' (QArr [w])) = []"
    if "w = ''no'' \<or> w = ''unsure''" for w
  proof -
    have "updateQuery (query st) ''detachable'' (QArr [w]) ''detachable'' = Some (QStr w)"
      by (simp add: updateQuery_def)
    then have "\<not> checkGall g' (updateQuery (query st) ''detachable'' (QArr [w]))" for g'
      using b that by (simp add: checkGall_def)
    then show ?thesis by (simp add: galls_doSearch)
  qed
  show ?thesis
    using a b[of q g] c[of "''no''"] c[of "''unsure''"]
    by (auto simp: checkGall_def)
qed

theorem detachable_matches_only_yes_witness:
  "\<not> dontCare ([''detachable'' \<mapsto> QStr ''yes''] ''detachable'')
   \<and> facet_detachable (blankGall\<lparr>detachable := Some 1\<rparr>) [''detachable'' \<mapsto> QStr ''yes'']
   \<and> \<not> facet_detachable (blankGall\<lparr>detachable := Some 0\<rparr>) [''detachable'' \<mapsto> QStr ''yes'']
   \<and> \<not> facet_detachable (blankGall\<lparr>detachable := Some 1\<rparr>) [''detachable'' \<mapsto> QStr ''unsure'']
   \<and> galls (doSearch (loaded [blankGall\<lparr>detachable := Some 0\<rparr>, blankGall\<lparr>detachable := Some 1\<rparr>])
        ''detachable'' (QArr [''no''])) = []"
  using detachable_matches_only_yes [of "[''detachable'' \<mapsto> QStr ''yes'']"
        "blankGall\<lparr>detachable := Some 1\<rparr>"
        "loaded [blankGall\<lparr>detachable := Some 0\<rparr>, blankGall\<lparr>detachable := Some 1\<rparr>]"]
      detachable_matches_only_yes [of "[''detachable'' \<mapsto> QStr ''yes'']"
        "blankGall\<lparr>detachable := Some 0\<rparr>" "loaded []"]
      detachable_matches_only_yes [of "[''detachable'' \<mapsto> QStr ''unsure'']"
        "blankGall\<lparr>detachable := Some 1\<rparr>" "loaded []"]
  by (simp add: dontCare_def blankGall_def)

text \<open>
  Claim C3. The claim has a record with detachable code 0 satisfy the query value no.
  In \<open>checkGall\<close> the label is compared only behind \<open>!!g.detachable\<close>, which is
  false for the code 0: such a record fails the detachable test for the query value no,
  does not match the query, and is removed when no is selected.
\<close>

theorem detachable_zero_fails_no:
  "\<not> facet_detachable (blankGall\<lparr>detachable := Some 0\<rparr>) [''detachable'' \<mapsto> QStr ''no'']
   \<and> \<not> checkGall (blankGall\<lparr>detachable := Some 0\<rparr>) [''detachable'' \<mapsto> QStr ''no'']
   \<and> galls (doSearch (loaded [blankGall\<lparr>detachable := Some 0\<rparr>]) ''detachable''
        (QArr [''no''])) = []"
  by (simp add: doSearch_def updateQuery_def checkGall_def facet_defs dontCare_def example_defs)

subsection \<open>Multi-valued facets\<close>

lemma set_map_filter: "set (List.map_filter f xs) = {y. \<exists>x\<in>set xs. f x = Some y}"
  by (induction xs) (auto simp: List.map_filter_def)

lemma location_hit_iff:
  "(case GallLocation_location gp of None \<Rightarrow> False
    | Some l \<Rightarrow> (case location_location l of None \<Rightarrow> False
                 | Some t \<Rightarrow> t \<noteq> [] \<and> includes_js (QArr qs) t)) \<longleftrightarrow>
   (\<exists>t. Option.bind (GallLocation_location gp) location_location = Some t
        \<and> t \<noteq> [] \<and> t \<in> set qs)"
  by (cases "GallLocation_location gp";
      cases "location_location (the (GallLocation_location gp))") simp_all

lemma texture_hit_iff:
  "(case GallTexture_texture gp of None \<Rightarrow> False
    | Some l \<Rightarrow> (case texture_texture l of None \<Rightarrow> False
                 | Some t \<Rightarrow> t \<noteq> [] \<and> includes_js (QArr qs) t)) \<longleftrightarrow>
   (\<exists>t. Option.bind (GallTexture_texture gp) texture_texture = Some t
        \<and> t \<noteq> [] \<and> t \<in> set qs)"
  by (cases "GallTexture_texture gp";
      cases "texture_texture (the (GallTexture_texture gp))") simp_all

lemma checkLocations_iff:
  "checkLocations (galllocation g) (Some (QArr qs)) \<longleftrightarrow>
     (\<exists>t \<in> set (locationTags g). t \<noteq> [] \<and> t \<in> set qs)"
proof (cases "galllocation g")
  case None
  then show ?thesis by (simp add: checkLocations_def locationTags_def)
next
  case (Some gps)
  then show ?thesis
    by (simp add: checkLocations_def locationTags_def set_map_filter list_ex_iff location_hit_iff)
       blast
qed

lemma checkTextures_iff:
  "checkTextures (galltexture g) (Some (QArr qs)) \<longleftrightarrow>
     (\<exists>t \<in> set (textureTags g). t \<noteq> [] \<and> t \<in> set qs)"
proof (cases "galltexture g")
  case None
  then show ?thesis by (simp add: checkTextures_def textureTags_def)
next
  case (Some gps)
  then show ?thesis
    by (simp add: checkTextures_def textureTags_def set_map_filter list_ex_iff texture_hit_iff)
       blast
qed

text \<open>
  Claim C6, as the code has it. For a non-empty sequence of query values, the locations
  test (and likewise the textures test) is true if and only if the record's sequence is
  not \<open>null\<close> and at least one of its tags is a non-empty string contained in the query
  sequence.
\<close>

theorem multi_facet_any_nonempty_tag:
  "(q ''locations'' = Some (QArr qs) \<and> qs \<noteq> [] \<longrightarrow>
      (facet_location g q \<longleftrightarrow>
         galllocation g \<noteq> None \<and> (\<exists>t \<in> set (locationTags g). t \<noteq> [] \<and> t \<in> set qs)))
   \<and> (q ''textures'' = Some (QArr qs') \<and> qs' \<noteq> [] \<longrightarrow>
      (facet_texture g q \<longleftrightarrow>
         galltexture g \<noteq> None \<and> (\<exists>t \<in> set (textureTags g). t \<noteq> [] \<and> t \<in> set qs')))"
proof -
  have "facet_location g q \<longleftrightarrow>
         galllocation g \<noteq> None \<and> (\<exists>t \<in> set (locationTags g). t \<noteq> [] \<and> t \<in> set qs)"
    if "q ''locations'' = Some (QArr qs)" "qs \<noteq> []"
    using that checkLocations_iff[of g qs]
    by (cases "galllocation g") (simp_all add: facet_location_def dontCare_iff)
  moreover have "facet_texture g q \<longleftrightarrow>
         galltexture g \<noteq> None \<and> (\<exists>t \<in> set (textureTags g). t \<noteq> [] \<and> t \<in> set qs')"
    if "q ''textures'' = Some (QArr qs')" "qs' \<noteq> []"
    using that checkTextures_iff[of g qs']
    by (cases "galltexture g") (simp_all add: facet_texture_def dontCare_iff)
  ultimately show ?thesis by blast
qed

text \<open>
  The example of the claim: the record with tags stem and leaf matches the locations
  leaf, root and does not match the locations root.
\<close>

theorem multi_facet_any_nonempty_tag_witness:
  "locationTags stemLeafGall = [''stem'', ''leaf'']
   \<and> facet_location stemLeafGall [''locations'' \<mapsto> QArr [''leaf'', ''root'']]
   \<and> checkGall stemLeafGall [''locations'' \<mapsto> QArr [''leaf'', ''root'']]
   \<and> \<not> facet_location stemLeafGall [''locations'' \<mapsto> QArr [''root'']]
   \<and> \<not> checkGall stemLeafGall [''locations'' \<mapsto> QArr [''root'']]"
  using multi_facet_any_nonempty_tag [of "[''locations'' \<mapsto> QArr [''leaf'', ''root'']]"
      "[''leaf'', ''root'']" stemLeafGall "[]"]
    multi_facet_any_nonempty_tag [of "[''locations'' \<mapsto> QArr [''root'']]"
      "[''root'']" stemLeafGall "[]"]
  by (simp add: stemLeafGall_def locationTags_def List.map_filter_def example_defs
      checkGall_def facet_defs dontCare_def)

text \<open>
  Claim C6 as stated fails for a tag that is the empty string: the record's sequence is
  not \<open>null\<close>, its one tag is contained in the non-empty query sequence, and the
  locations test is false.
\<close>

theorem multi_facet_empty_tag_counterexample:
  "galllocation emptyTagGall = Some [mkLocation '''']
   \<and> locationTags emptyTagGall = ['''']
   \<and> '''' \<in> set ['''']
   \<and> \<not> dontCare (Some (QArr ['''']))
   \<and> \<not> facet_location emptyTagGall [''locations'' \<mapsto> QArr ['''']]"
  by (simp add: emptyTagGall_def locationTags_def List.map_filter_def example_defs
      facet_location_def checkLocations_def dontCare_def)

subsection \<open>Merging an edit into the query\<close>

lemma updateQuery_overwrite:
  "(f' \<noteq> f \<longrightarrow> updateQuery q f v f' = q f')
   \<and> updateQuery (updateQuery q f v) f w = updateQuery q f w
   \<and> (f = ''locations'' \<or> f = ''textures'' \<longrightarrow> updateQuery q f v f = Some v)
   \<and> (f \<noteq> ''locations'' \<and> f \<noteq> ''textures'' \<longrightarrow>
        updateQuery q f (QArr (x # xs)) f = Some (QStr x)
        \<and> updateQuery q f (QArr []) f = Some (QArr [])
        \<and> updateQuery q f (QStr []) f = Some (QStr [])
        \<and> updateQuery q f (QStr (c # cs)) f = Some (QStr [c]))"
  by (simp add: updateQuery_def)

text \<open>
  Claim C4. The claim has the string of a free-choice input stored as it is. For a
  single-valued facet \<open>updateQuery\<close> stores \<open>v[0]\<close> of every non-empty \<open>v\<close>, and
  \<open>v[0]\<close> of the string green is its first code unit: the colour stored is g, and the
  edit that shows records 1 and 3 when it comes as the selection [green] shows no record
  when it comes as the string green.
\<close>

theorem updateQuery_string_first_unit:
  "updateQuery Map.empty ''color'' (QStr ''green'') ''color'' = Some (QStr ''g'')
   \<and> galls (doSearch (loaded [gall1, gall2, gall3]) ''color'' (QArr [''green'']))
       = [gall1, gall3]
   \<and> galls (doSearch (loaded [gall1, gall2, gall3]) ''color'' (QStr ''green'')) = []"
  by (simp add: doSearch_def updateQuery_def checkGall_def facet_defs dontCare_def example_defs)

subsection \<open>Root submission\<close>

text \<open>
  Claim C2. The claim has a successful root submission reset the query. \<open>onSubmit\<close>
  replaces \<open>galls\<close> by the fetched records and empties the facet inputs, and never
  writes \<open>query\<close>: after the colour green and a new root fetch that returns the brown
  record 2, the query still holds green, and the next edit, which clears the shape,
  removes record 2.
\<close>

theorem onSubmit_keeps_query:
  "rootUrl hostQuercus = ''../api/search?host=Quercus''
   \<and> galls (onSubmit (\<lambda>url. Response 200 (Some [gall2])) greenState hostQuercus) = [gall2]
   \<and> filterValues (onSubmit (\<lambda>url. Response 200 (Some [gall2])) greenState hostQuercus)
       = Map.empty
   \<and> query (onSubmit (\<lambda>url. Response 200 (Some [gall2])) greenState hostQuercus) ''color''
       = Some (QStr ''green'')
   \<and> galls (doSearch (onSubmit (\<lambda>url. Response 200 (Some [gall2])) greenState hostQuercus)
        ''shape'' (QArr [])) = []"
  by (simp add: onSubmit_def filterReset_def rootUrl_def template_def greenState_def
      hostQuercus_def doSearch_def updateQuery_def checkGall_def facet_defs dontCare_def
      example_defs)

text \<open>
  Claim C8. When the root fetch fails (the request is rejected, the status is not 200,
  or the body of a 200 response cannot be read), \<open>galls\<close> and \<open>query\<close> are what they
  were before the submission.
\<close>

theorem onSubmit_failure_keeps_state:
  "(\<forall>gs. fetch (rootUrl sel) \<noteq> Response 200 (Some gs)) \<Longrightarrow>
     galls (onSubmit fetch st sel) = galls st \<and> query (onSubmit fetch st sel) = query st"
proof -
  assume "\<forall>gs. fetch (rootUrl sel) \<noteq> Response 200 (Some gs)"
  then have "fetched (fetch (rootUrl sel)) = None"
    by (cases "fetch (rootUrl sel)" rule: fetched.cases) auto
  then show ?thesis by (simp add: galls_onSubmit query_onSubmit)
qed

theorem onSubmit_failure_keeps_state_witness:
  "(\<forall>gs. Response 500 None \<noteq> Response 200 (Some gs))
   \<and> galls (onSubmit (\<lambda>url. Response 500 None) greenState hostQuercus) = [gall1]
   \<and> query (onSubmit (\<lambda>url. Response 500 None) greenState hostQuercus)
       = [''color'' \<mapsto> QStr ''green'']
   \<and> galls (onSubmit (\<lambda>url. Rejected) greenState hostQuercus) = [gall1]
   \<and> query (onSubmit (\<lambda>url. Rejected) greenState hostQuercus) = [''color'' \<mapsto> QStr ''green'']
   \<and> galls (onSubmit (\<lambda>url. Response 200 None) greenState hostQuercus) = [gall1]"
  using onSubmit_failure_keeps_state [of "\<lambda>url. Response 500 None" hostQuercus greenState]
    onSubmit_failure_keeps_state [of "\<lambda>url. Rejected" hostQuercus greenState]
    onSubmit_failure_keeps_state [of "\<lambda>url. Response 200 None" hostQuercus greenState]
  by (simp add: greenState_def)

subsection \<open>The displayed records and the fetched superset\<close>

text \<open>
  Claim C10. After a successful root fetch that returns \<open>gs\<close>, the displayed records
  are \<open>gs\<close>; after any sequence of facet edits they are a subsequence of \<open>gs\<close> (no
  record added, repeated or moved); and after any sequence of edits and root submissions
  they are a subsequence of what the most recent successful fetch returned.
\<close>

theorem displayed_subseq_of_superset:
  "fetch (rootUrl sel) = Response 200 (Some gs) \<Longrightarrow>
     galls (onSubmit fetch st sel) = gs
     \<and> subseq (galls (doSearches (onSubmit fetch st sel) es)) gs
     \<and> subseq (galls (run (onSubmit fetch st sel) evs)) (superset_after gs evs)"
proof -
  assume ok: "fetch (rootUrl sel) = Response 200 (Some gs)"
  then have g: "galls (onSubmit fetch st sel) = gs"
    by (simp add: galls_onSubmit)
  have "subseq (galls (doSearches (onSubmit fetch st sel) es)) (galls (onSubmit fetch st sel))"
    by (rule subseq_doSearches)
  moreover have "subseq (galls (run (onSubmit fetch st sel) evs)) (superset_after gs evs)"
    by (rule subseq_run) (simp add: g)
  ultimately show ?thesis using g by simp
qed

theorem displayed_subseq_of_superset_witness:
  "galls (onSubmit (\<lambda>url. Response 200 (Some [gall1, gall2, gall3])) (loaded [gall1]) hostQuercus)
     = [gall1, gall2, gall3]
   \<and> galls (doSearches
        (onSubmit (\<lambda>url. Response 200 (Some [gall1, gall2, gall3])) (loaded [gall1]) hostQuercus)
        [(''locations'', QArr [''leaf'']), (''color'', QArr [])]) = [gall2, gall3]
   \<and> subseq [gall2, gall3] [gall1, gall2, gall3]
   \<and> superset_after [gall1, gall2, gall3]
        [EditFacet ''locations'' (QArr [''leaf'']), SubmitRoot hostQuercus Rejected,
         EditFacet ''color'' (QArr [])] = [gall1, gall2, gall3]
   \<and> galls (run
        (onSubmit (\<lambda>url. Response 200 (Some [gall1, gall2, gall3])) (loaded [gall1]) hostQuercus)
        [EditFacet ''locations'' (QArr [''leaf'']), SubmitRoot hostQuercus Rejected,
         EditFacet ''color'' (QArr [])]) = [gall2, gall3]"
  using displayed_subseq_of_superset [of "\<lambda>url. Response 200 (Some [gall1, gall2, gall3])"
      hostQuercus "[gall1, gall2, gall3]" "loaded [gall1]"
      "[(''locations'', QArr [''leaf'']), (''color'', QArr [])]"
      "[EditFacet ''locations'' (QArr [''leaf'']), SubmitRoot hostQuercus Rejected,
         EditFacet ''color'' (QArr [])]"]
  by (simp add: onSubmit_def filterReset_def doSearch_def updateQuery_def checkGall_def
      facet_defs dontCare_def checkLocations_def example_defs)

end
